theory Spec2Isabelle
  imports Main "HOL-Library.Word" "HOL-Library.Multiset" "HOL-Library.Sublist"
begin

section \<open>Data model of consensus/equality/header\_extra.go\<close>

text \<open>
  \<open>common.Hash\<close> is a 32-byte array and \<open>common.Address\<close> a 20-byte array; both are
  compared with \<open>==\<close> and \<open>!=\<close> in the source, which on Go arrays is value equality.
  Their zero values are the all-zero arrays.
\<close>

type_synonym byte = "8 word"
type_synonym uint64 = "64 word"
type_synonym Hash = "256 word"
type_synonym Address = "160 word"

record Root =
  EpochHash :: Hash
  CandidateHash :: Hash
  MintCntHash :: Hash
  ConfigHash :: Hash

text \<open>
  The element type of \<open>ChainConfig\<close>, \<open>params.EqualityConfig\<close>, is declared outside
  header\_extra.go; it is the type parameter \<open>'cfg\<close>. A Go slice is a list; the nil slice
  and the empty slice both have length 0 and are the empty list.
\<close>

record 'cfg HeaderExtra =
  Root :: Root
  Epoch :: uint64
  EpochBlock :: uint64
  CurrentBlockCandidates :: "Address list"
  CurrentBlockKickOutCandidates :: "Address list"
  CurrentBlockCancelCandidates :: "Address list"
  CurrentEpochValidators :: "Address list"
  ChainConfig :: "'cfg list"

text \<open>The composite literal \<open>HeaderExtra{}\<close>: every field at its zero value.\<close>

definition zero_Root :: Root where
  "zero_Root = \<lparr>EpochHash = 0, CandidateHash = 0, MintCntHash = 0, ConfigHash = 0\<rparr>"

definition zero_HeaderExtra :: "'cfg HeaderExtra" where
  "zero_HeaderExtra =
     \<lparr>Root = zero_Root, Epoch = 0, EpochBlock = 0,
      CurrentBlockCandidates = [], CurrentBlockKickOutCandidates = [],
      CurrentBlockCancelCandidates = [], CurrentEpochValidators = [],
      ChainConfig = []\<rparr>"

section \<open>Address list helpers\<close>

text \<open>\<open>addressesExist\<close>: the range loop returns at the first match.\<close>

fun addressesExist :: "Address list \<Rightarrow> Address \<Rightarrow> bool" where
  "addressesExist [] addr = False"
| "addressesExist (address # rest) addr =
     (if address = addr then True else addressesExist rest addr)"

text \<open>
  \<open>addressesDistinct\<close>: the loop carries the map \<open>set\<close> (keys to the empty struct) and
  the slice \<open>result\<close>, appended to at its end.
\<close>

fun addressesDistinct_loop ::
  "Address list \<Rightarrow> (Address \<rightharpoonup> unit) \<Rightarrow> Address list \<Rightarrow> Address list" where
  "addressesDistinct_loop [] seen result = result"
| "addressesDistinct_loop (address # rest) seen result =
     (if seen address = None
      then addressesDistinct_loop rest (seen(address \<mapsto> ())) (result @ [address])
      else addressesDistinct_loop rest seen result)"

definition addressesDistinct :: "Address list \<Rightarrow> Address list" where
  "addressesDistinct sl =
     (if length sl \<le> 1 then sl
      else addressesDistinct_loop sl Map.empty [])"

text \<open>\<open>addressesRemove\<close>: the loop appends every element other than \<open>addr\<close>.\<close>

fun addressesRemove_loop :: "Address list \<Rightarrow> Address \<Rightarrow> Address list \<Rightarrow> Address list" where
  "addressesRemove_loop [] addr result = result"
| "addressesRemove_loop (address # rest) addr result =
     (if address \<noteq> addr
      then addressesRemove_loop rest addr (result @ [address])
      else addressesRemove_loop rest addr result)"

definition addressesRemove :: "Address list \<Rightarrow> Address \<Rightarrow> Address list" where
  "addressesRemove sl addr = addressesRemove_loop sl addr []"

section \<open>Errors and the library boundary\<close>

text \<open>
  Go's \<open>error\<close> values that can reach the callers of this file. \<open>errMissingVanity\<close> and
  \<open>errMissingSignature\<close> are the package's own sentinels; \<open>io.EOF\<close>,
  \<open>io.ErrUnexpectedEOF\<close> and \<open>gzip.ErrHeader\<close> are the sentinels of the standard library;
  \<open>OtherError\<close> stands for every other error of the gzip, flate and rlp packages, told
  apart by its message.
\<close>

datatype error =
    io_EOF
  | io_ErrUnexpectedEOF
  | gzip_ErrHeader
  | errMissingVanity
  | errMissingSignature
  | OtherError string

text \<open>
  A \<open>*gzip.Reader\<close> over an in-memory slice, as the loop of \<open>NewHeaderExtra\<close> sees it:
  \<open>Deliver temp r\<close> is a call \<open>r.Read(temp[:])\<close> that returns the bytes \<open>temp\<close> (at most
  128 of them, possibly none) with a nil error and leaves the reader as \<open>r\<close>;
  \<open>Fail temp err\<close> is a call that returns the bytes \<open>temp\<close> together with the non-nil
  error \<open>err\<close>. A reader over finitely many input bytes reaches such a call.
  \<open>gzip.NewReader(bytes.NewReader(data))\<close> belongs to Go's \<open>compress/gzip\<close> and is a
  parameter \<open>gzip_NewReader\<close> of the functions that call it: it gives the error of
  opening the stream, or the reader.
\<close>

datatype reader =
    Deliver "byte list" reader
  | Fail "byte list" error

text \<open>
  What a reader amounts to: all the bytes its calls deliver, in order, and the error of
  the call that ends it (\<open>io.EOF\<close> for a clean end of stream).
\<close>

fun reader_bytes :: "reader \<Rightarrow> byte list" where
  "reader_bytes (Deliver temp r) = temp @ reader_bytes r"
| "reader_bytes (Fail temp err) = temp"

fun reader_error :: "reader \<Rightarrow> error" where
  "reader_error (Deliver temp r) = reader_error r"
| "reader_error (Fail temp err) = err"

section \<open>Envelope codec\<close>

text \<open>
  The \<open>for\<close> loop of \<open>NewHeaderExtra\<close>: each round reads into \<open>temp\<close>, writes the \<open>n\<close>
  bytes read to \<open>buffer\<close> when \<open>n > 0\<close>, and then looks at the error: \<open>io.EOF\<close> breaks
  out of the loop, any other error is returned. The result is the buffer and the error
  returned from inside the loop, if any.
\<close>

fun read_loop :: "reader \<Rightarrow> byte list \<Rightarrow> byte list \<times> error option" where
  "read_loop (Deliver temp r) buffer =
     read_loop r (if 0 < length temp then buffer @ temp else buffer)"
| "read_loop (Fail temp err) buffer =
     (let buffer' = (if 0 < length temp then buffer @ temp else buffer)
      in if err = io_EOF then (buffer', None) else (buffer', Some err))"

text \<open>
  \<open>NewHeaderExtra\<close>. \<open>rlp.DecodeBytes(buffer.Bytes(), &headerExtra)\<close> is the parameter
  \<open>rlp_DecodeBytes\<close>: it receives the bytes and the value behind the pointer (the zero
  value of the declaration \<open>var headerExtra HeaderExtra\<close>) and returns the value it left
  there, which may be partly filled, and its error.
\<close>

definition NewHeaderExtra ::
  "(byte list \<Rightarrow> error + reader) \<Rightarrow>
   (byte list \<Rightarrow> 'cfg HeaderExtra \<Rightarrow> 'cfg HeaderExtra \<times> error option) \<Rightarrow>
   byte list \<Rightarrow> 'cfg HeaderExtra \<times> error option" where
  "NewHeaderExtra gzip_NewReader rlp_DecodeBytes data =
     (case gzip_NewReader data of
        Inl err \<Rightarrow> (zero_HeaderExtra, Some err)
      | Inr r \<Rightarrow>
          (case read_loop r [] of
             (buffer, Some err) \<Rightarrow> (zero_HeaderExtra, Some err)
           | (buffer, None) \<Rightarrow>
               (case rlp_DecodeBytes buffer zero_HeaderExtra of
                  (headerExtra, Some err) \<Rightarrow> (zero_HeaderExtra, Some err)
                | (headerExtra, None) \<Rightarrow> (headerExtra, None))))"

text \<open>
  \<open>Encode\<close>. \<open>rlp.EncodeToBytes\<close> is the parameter \<open>rlp_EncodeToBytes\<close>;
  \<open>gzip_Write data\<close> is what \<open>gzip.NewWriter(buffer)\<close>, \<open>w.Write(data)\<close> and
  \<open>w.Close()\<close> leave in the buffer. The source drops the results of \<open>Write\<close> and
  \<open>Close\<close>.
\<close>

definition Encode ::
  "('cfg HeaderExtra \<Rightarrow> byte list \<times> error option) \<Rightarrow> (byte list \<Rightarrow> byte list) \<Rightarrow>
   'cfg HeaderExtra \<Rightarrow> byte list \<times> error option" where
  "Encode rlp_EncodeToBytes gzip_Write headerExtra =
     (case rlp_EncodeToBytes headerExtra of
        (data, Some err) \<Rightarrow> ([], Some err)
      | (data, None) \<Rightarrow> (gzip_Write data, None))"

section \<open>Byte-range extraction\<close>

text \<open>
  The slice expression \<open>s[lo:hi]\<close>, for \<open>lo \<le> hi \<le> len(s)\<close>; outside these bounds Go
  panics, and \<open>DecodeHeaderExtra\<close> slices only after its two length checks.
\<close>

definition go_slice :: "'a list \<Rightarrow> nat \<Rightarrow> nat \<Rightarrow> 'a list" where
  "go_slice s lo hi = take (hi - lo) (drop lo s)"

text \<open>
  \<open>DecodeHeaderExtra\<close>, on the field \<open>header.Extra\<close>. The package constants
  \<open>extraVanity\<close> and \<open>extraSeal\<close> are declared outside header\_extra.go and are parameters.
\<close>

definition DecodeHeaderExtra ::
  "nat \<Rightarrow> nat \<Rightarrow> (byte list \<Rightarrow> error + reader) \<Rightarrow>
   (byte list \<Rightarrow> 'cfg HeaderExtra \<Rightarrow> 'cfg HeaderExtra \<times> error option) \<Rightarrow>
   byte list \<Rightarrow> 'cfg HeaderExtra \<times> error option" where
  "DecodeHeaderExtra extraVanity extraSeal gzip_NewReader rlp_DecodeBytes headerExtra =
     (if length headerExtra < extraVanity then (zero_HeaderExtra, Some errMissingVanity)
      else if length headerExtra < extraVanity + extraSeal
        then (zero_HeaderExtra, Some errMissingSignature)
      else NewHeaderExtra gzip_NewReader rlp_DecodeBytes
             (go_slice headerExtra extraVanity (length headerExtra - extraSeal)))"

section \<open>Equality\<close>

text \<open>
  The loops \<open>for idx, x := range xs { if x != other[idx] { return false } }\<close> of
  \<open>Equal\<close>: \<open>True\<close> when the loop runs to its end, \<open>False\<close> when it returns. Each loop
  follows a check that the two lengths agree, so \<open>other ! idx\<close> is within range.
  \<open>differs\<close> is \<open>!=\<close> on addresses and the negation of the element's own \<open>Equal\<close>
  method on \<open>ChainConfig\<close>.
\<close>

fun range_loop :: "('a \<Rightarrow> 'a \<Rightarrow> bool) \<Rightarrow> 'a list \<Rightarrow> nat \<Rightarrow> 'a list \<Rightarrow> bool" where
  "range_loop differs [] idx other = True"
| "range_loop differs (x # xs) idx other =
     (if differs x (other ! idx) then False else range_loop differs xs (Suc idx) other)"

text \<open>
  \<open>HeaderExtra.Equal\<close>. The method \<open>params.EqualityConfig.Equal\<close> is declared outside
  header\_extra.go and is the parameter \<open>config_Equal\<close>.
\<close>

definition Equal ::
  "('cfg \<Rightarrow> 'cfg \<Rightarrow> bool) \<Rightarrow> 'cfg HeaderExtra \<Rightarrow> 'cfg HeaderExtra \<Rightarrow> bool" where
  "Equal config_Equal headerExtra other =
     (if Root headerExtra \<noteq> Root other then False
      else if Epoch headerExtra \<noteq> Epoch other then False
      else if EpochBlock headerExtra \<noteq> EpochBlock other then False
      else if length (ChainConfig headerExtra) \<noteq> length (ChainConfig other) then False
      else if \<not> range_loop (\<lambda>config c. \<not> config_Equal config c)
                  (ChainConfig headerExtra) 0 (ChainConfig other) then False
      else if length (CurrentBlockCandidates headerExtra)
                \<noteq> length (CurrentBlockCandidates other) then False
      else if \<not> range_loop (\<noteq>) (CurrentBlockCandidates headerExtra) 0
                  (CurrentBlockCandidates other) then False
      else if length (CurrentBlockKickOutCandidates headerExtra)
                \<noteq> length (CurrentBlockKickOutCandidates other) then False
      else if \<not> range_loop (\<noteq>) (CurrentBlockKickOutCandidates headerExtra) 0
                  (CurrentBlockKickOutCandidates other) then False
      else if length (CurrentBlockCancelCandidates headerExtra)
                \<noteq> length (CurrentBlockCancelCandidates other) then False
      else if \<not> range_loop (\<noteq>) (CurrentBlockCancelCandidates headerExtra) 0
                  (CurrentBlockCancelCandidates other) then False
      else if length (CurrentEpochValidators headerExtra)
                \<noteq> length (CurrentEpochValidators other) then False
      else if \<not> range_loop (\<noteq>) (CurrentEpochValidators headerExtra) 0
                  (CurrentEpochValidators other) then False
      else True)"

section \<open>Divergence report\<close>

text \<open>The verb \<open>%d\<close> of \<open>fmt.Sprintf\<close> on a \<open>uint64\<close>: its decimal digits.\<close>

definition digit_char :: "nat \<Rightarrow> char" where
  "digit_char d = ''0123456789abcdef'' ! d"

fun decimal :: "nat \<Rightarrow> string" where
  "decimal n = (if n < 10 then [digit_char n] else decimal (n div 10) @ [digit_char (n mod 10)])"

declare decimal.simps [simp del]

definition newline :: string where
  "newline = [CHR 0x0A]"

fun strings_Join :: "string list \<Rightarrow> string \<Rightarrow> string" where
  "strings_Join [] sep = []"
| "strings_Join [s] sep = s"
| "strings_Join (s # rest) sep = s @ sep @ strings_Join rest sep"

text \<open>
  \<open>Root.PrintDifference\<close> returns nothing and writes to standard output; the model
  returns the text it writes. \<open>PrintDifference_lines\<close> is the local \<open>slice\<close> at the
  call of \<open>strings.Join\<close>. The method \<open>common.Hash.String\<close> is declared outside
  header\_extra.go and is the parameter \<open>Hash_String\<close>.
\<close>

definition PrintDifference_lines ::
  "(Hash \<Rightarrow> string) \<Rightarrow> Root \<Rightarrow> uint64 \<Rightarrow> Root \<Rightarrow> string list" where
  "PrintDifference_lines Hash_String root number other =
     (let sl = [];
          sl = sl @ [''BlockNumber: '' @ decimal (unat number)];
          sl = (if EpochHash root \<noteq> EpochHash other
                then sl @ [''EpochHash: '' @ Hash_String (EpochHash root) @ '' ---- ''
                             @ Hash_String (EpochHash other)]
                else sl);
          sl = (if CandidateHash root \<noteq> CandidateHash other
                then sl @ [''CandidateHash: '' @ Hash_String (CandidateHash root) @ '' ---- ''
                             @ Hash_String (CandidateHash other)]
                else sl);
          sl = (if MintCntHash root \<noteq> MintCntHash other
                then sl @ [''MintCntHash: '' @ Hash_String (MintCntHash root) @ '' ---- ''
                             @ Hash_String (MintCntHash other)]
                else sl);
          sl = (if ConfigHash root \<noteq> ConfigHash other
                then sl @ [''ConfigHash: '' @ Hash_String (ConfigHash root) @ '' ---- ''
                             @ Hash_String (ConfigHash other)]
                else sl)
      in sl)"

definition PrintDifference :: "(Hash \<Rightarrow> string) \<Rightarrow> Root \<Rightarrow> uint64 \<Rightarrow> Root \<Rightarrow> string" where
  "PrintDifference Hash_String root number other =
     ''######### Root Hash Difference #########'' @ newline
       @ strings_Join (PrintDifference_lines Hash_String root number other) newline @ newline"

section \<open>Contracts of the compressor and the serializer\<close>

text \<open>
  Modelled from the spec: \<open>gzip.NewReader\<close> of Go's \<open>compress/gzip\<close>, which is not
  under src/ ("Open the input as a compressed stream; fail with EnvelopeCorrupt if the
  stream header is invalid"). Opening reads the fixed ten-byte header of the gzip format:
  no byte at all is \<open>io.EOF\<close>, fewer than ten bytes is \<open>io.ErrUnexpectedEOF\<close>, and a
  header that does not begin with the magic bytes 0x1f 0x8b and the deflate method 8 is
  \<open>gzip.ErrHeader\<close>.
  Everything after that check (the optional header fields, the deflate body and the
  trailer) is the parameter \<open>member\<close>, which either rejects the stream on opening or
  gives the reader.
\<close>

definition modelled_gzip_NewReader ::
  "(byte list \<Rightarrow> error + reader) \<Rightarrow> byte list \<Rightarrow> error + reader" where
  "modelled_gzip_NewReader member data =
     (if data = [] then Inl io_EOF
      else if length data < 10 then Inl io_ErrUnexpectedEOF
      else if data ! 0 \<noteq> 0x1f \<or> data ! 1 \<noteq> 0x8b \<or> data ! 2 \<noteq> 0x08 then Inl gzip_ErrHeader
      else member data)"

text \<open>
  Modelled from the spec: the writer and the reader of Go's \<open>compress/gzip\<close>, which are
  not under src/ ("Compress the serialized bytes with the same stream format used by
  Decode, flushing and closing the stream fully before returning"). The stream the
  writer leaves for \<open>data\<close> opens without error, delivers exactly \<open>data\<close> over its
  reads, in whatever portions, and ends cleanly.
\<close>

definition gzip_round_trip ::
  "(byte list \<Rightarrow> byte list) \<Rightarrow> (byte list \<Rightarrow> error + reader) \<Rightarrow> byte list \<Rightarrow> bool" where
  "gzip_round_trip gzip_Write gzip_NewReader data =
     (case gzip_NewReader (gzip_Write data) of
        Inl err \<Rightarrow> False
      | Inr r \<Rightarrow> reader_bytes r = data \<and> reader_error r = io_EOF)"

text \<open>
  Modelled from the spec: \<open>rlp.EncodeToBytes\<close> and \<open>rlp.DecodeBytes\<close> of the
  repository's \<open>rlp\<close> package, which is not under src/ ("Serialize the Payload
  deterministically", "Deserialize the buffer using the structured binary format into a
  Payload value"). A Payload is well formed when the serializer accepts it and its
  serialization deserializes, without error, into a payload that \<open>Equal\<close> holds equal
  to it.
\<close>

definition well_formed ::
  "('cfg HeaderExtra \<Rightarrow> byte list \<times> error option) \<Rightarrow>
   (byte list \<Rightarrow> 'cfg HeaderExtra \<Rightarrow> 'cfg HeaderExtra \<times> error option) \<Rightarrow>
   ('cfg \<Rightarrow> 'cfg \<Rightarrow> bool) \<Rightarrow> 'cfg HeaderExtra \<Rightarrow> bool" where
  "well_formed rlp_EncodeToBytes rlp_DecodeBytes config_Equal p =
     (case rlp_EncodeToBytes p of
        (data, Some err) \<Rightarrow> False
      | (data, None) \<Rightarrow>
          (case rlp_DecodeBytes data zero_HeaderExtra of
             (q, Some err) \<Rightarrow> False
           | (q, None) \<Rightarrow> Equal config_Equal q p))"

section \<open>Example instances of the library parameters\<close>

text \<open>
  The theorems below hold for every choice of the library parameters. Their examples
  need one concrete choice. \<open>example_Write\<close> and \<open>example_NewReader\<close> are a stream
  format that stores the content unchanged between a ten-byte gzip header and an
  eight-byte trailer: a stream without that header does not open, one too short to hold
  the trailer ends with \<open>io.ErrUnexpectedEOF\<close>, any other delivers its content in one
  read and then ends cleanly. \<open>example_EncodeToBytes\<close> and \<open>example_DecodeBytes\<close> are
  a serialization of the low byte of \<open>Epoch\<close> alone; like \<open>rlp.DecodeBytes\<close>, the
  decoder fills the value before it reports that the input holds more than one value.
\<close>

definition example_Write :: "byte list \<Rightarrow> byte list" where
  "example_Write data = [0x1f, 0x8b, 0x08, 0, 0, 0, 0, 0, 0, 0xff] @ data @ replicate 8 0"

definition example_member :: "byte list \<Rightarrow> error + reader" where
  "example_member data =
     (if length data < 18 then Inr (Fail (drop 10 data) io_ErrUnexpectedEOF)
      else Inr (Deliver (take (length data - 18) (drop 10 data)) (Fail [] io_EOF)))"

definition example_NewReader :: "byte list \<Rightarrow> error + reader" where
  "example_NewReader data =
     (if length data < 10 \<or> take 3 data \<noteq> [0x1f, 0x8b, 0x08] then Inl gzip_ErrHeader
      else example_member data)"

definition example_EncodeToBytes :: "nat HeaderExtra \<Rightarrow> byte list \<times> error option" where
  "example_EncodeToBytes headerExtra = ([ucast (Epoch headerExtra)], None)"

fun example_DecodeBytes :: "byte list \<Rightarrow> nat HeaderExtra \<Rightarrow> nat HeaderExtra \<times> error option" where
  "example_DecodeBytes [] val = (val, Some io_EOF)"
| "example_DecodeBytes [e] val = (val\<lparr>Epoch := ucast e\<rparr>, None)"
| "example_DecodeBytes (e # trailing) val =
     (val\<lparr>Epoch := ucast e\<rparr>, Some (OtherError ''rlp: input contains more than one value''))"

text \<open>
  \<open>hex_Hash_String\<close> is the rendering of a hash that the spec gives ("four fixed-width
  hash values, each rendered as a fixed-length hexadecimal string"): the prefix 0x and
  the 64 lower-case hexadecimal digits of the 32 bytes, first byte first.
\<close>

fun hex_digits :: "nat \<Rightarrow> nat \<Rightarrow> string" where
  "hex_digits 0 n = []"
| "hex_digits (Suc k) n = hex_digits k (n div 16) @ [digit_char (n mod 16)]"

definition hex_Hash_String :: "Hash \<Rightarrow> string" where
  "hex_Hash_String h = ''0x'' @ hex_digits 64 (unat h)"

section \<open>Properties of the address list helpers\<close>


lemma addressesExist_iff: "addressesExist xs a \<longleftrightarrow> a \<in> set xs"
  by (induction xs) auto

lemma addressesRemove_loop_filter:
  "addressesRemove_loop xs a result = result @ filter (\<lambda>y. y \<noteq> a) xs"
  by (induction xs arbitrary: result) auto

lemma first_occ_Cons:
  "map ((!) (x # xs)) (filter (\<lambda>i. (x # xs) ! i \<notin> S \<union> set (take i (x # xs))) [0..<length (x # xs)])
   = (if x \<in> S then [] else [x]) @
     map ((!) xs) (filter (\<lambda>i. xs ! i \<notin> insert x S \<union> set (take i xs)) [0..<length xs])"
proof -
  have upt: "[0..<length (x # xs)] = 0 # map Suc [0..<length xs]"
    by (simp add: upt_conv_Cons map_Suc_upt del: upt_Suc)
  show ?thesis
    unfolding upt by (auto simp: filter_map comp_def intro!: arg_cong[where f="map ((!) xs)"] filter_cong)
qed

lemma addressesDistinct_loop_first_occ:
  "addressesDistinct_loop xs seen result =
     result @ map ((!) xs) (filter (\<lambda>i. xs ! i \<notin> dom seen \<union> set (take i xs)) [0..<length xs])"
proof (induction xs arbitrary: seen result)
  case Nil
  then show ?case by simp
next
  case (Cons x xs)
  show ?case
  proof (cases "seen x = None")
    case True
    then have nd: "x \<notin> dom seen" by (simp add: domIff)
    have d: "dom (seen(x \<mapsto> ())) = insert x (dom seen)" by (auto simp: dom_def)
    have "addressesDistinct_loop (x # xs) seen result
            = addressesDistinct_loop xs (seen(x \<mapsto> ())) (result @ [x])"
      using True by simp
    also have "\<dots> = (result @ [x]) @ map ((!) xs)
        (filter (\<lambda>i. xs ! i \<notin> insert x (dom seen) \<union> set (take i xs)) [0..<length xs])"
      unfolding Cons.IH d ..
    finally show ?thesis
      unfolding first_occ_Cons using nd by simp
  next
    case False
    then have "x \<in> dom seen" by (simp add: domIff)
    then have "insert x (dom seen) = dom seen" by auto
    with False \<open>x \<in> dom seen\<close> show ?thesis
      unfolding first_occ_Cons by (simp add: Cons.IH)
  qed
qed


lemma dom_upd_unit: "dom (seen(x \<mapsto> ())) = insert x (dom seen)"
  by (auto simp: dom_def)

lemma addressesDistinct_loop_set:
  "set (addressesDistinct_loop xs seen result) = set result \<union> (set xs - dom seen)"
proof (induction xs arbitrary: seen result)
  case Nil
  then show ?case by simp
next
  case (Cons x xs)
  show ?case
  proof (cases "seen x = None")
    case True
    then have "x \<notin> dom seen" by (simp add: domIff)
    then show ?thesis using True by (auto simp: Cons.IH dom_upd_unit simp del: fun_upd_apply)
  next
    case False
    then have "x \<in> dom seen" by (simp add: domIff)
    then show ?thesis using False by (auto simp: Cons.IH)
  qed
qed

lemma addressesDistinct_loop_distinct:
  "distinct result \<Longrightarrow> set result \<subseteq> dom seen \<Longrightarrow>
   distinct (addressesDistinct_loop xs seen result)"
proof (induction xs arbitrary: seen result)
  case Nil
  then show ?case by simp
next
  case (Cons x xs)
  show ?case
  proof (cases "seen x = None")
    case True
    then have nd: "x \<notin> dom seen" by (simp add: domIff)
    have "distinct (result @ [x])" using Cons.prems nd by auto
    moreover have "set (result @ [x]) \<subseteq> dom (seen(x \<mapsto> ()))"
      using Cons.prems unfolding dom_upd_unit by auto
    ultimately have "distinct (addressesDistinct_loop xs (seen(x \<mapsto> ())) (result @ [x]))"
      by (rule Cons.IH)
    then show ?thesis using True by simp
  next
    case False
    then show ?thesis using Cons.IH [OF Cons.prems] by simp
  qed
qed

lemma addressesDistinct_loop_id:
  "distinct xs \<Longrightarrow> set xs \<inter> dom seen = {} \<Longrightarrow>
   addressesDistinct_loop xs seen result = result @ xs"
proof (induction xs arbitrary: seen result)
  case Nil
  then show ?case by simp
next
  case (Cons x xs)
  from Cons.prems have none: "seen x = None" by (auto simp: domIff)
  have "distinct xs" using Cons.prems by simp
  moreover have "set xs \<inter> dom (seen(x \<mapsto> ())) = {}"
    using Cons.prems unfolding dom_upd_unit by auto
  ultimately have "addressesDistinct_loop xs (seen(x \<mapsto> ())) (result @ [x]) = (result @ [x]) @ xs"
    by (rule Cons.IH)
  then show ?case using none by simp
qed

lemma addressesDistinct_distinct: "distinct (addressesDistinct s)"
proof (cases "length s \<le> 1")
  case True
  then have "s = [] \<or> (\<exists>x. s = [x])" by (cases s) auto
  then show ?thesis by (auto simp: addressesDistinct_def)
next
  case False
  then show ?thesis by (simp add: addressesDistinct_def addressesDistinct_loop_distinct)
qed

lemma addressesDistinct_set: "set (addressesDistinct s) = set s"
  by (simp add: addressesDistinct_def addressesDistinct_loop_set)

lemma addressesDistinct_fixed: "distinct s \<Longrightarrow> addressesDistinct s = s"
  by (simp add: addressesDistinct_def addressesDistinct_loop_id)

lemma addressesDistinct_first_occ:
  "addressesDistinct s = map ((!) s) (filter (\<lambda>i. s ! i \<notin> set (take i s)) [0..<length s])"
proof (cases "length s \<le> 1")
  case True
  then have "s = [] \<or> (\<exists>x. s = [x])" by (cases s) auto
  then show ?thesis by (auto simp: addressesDistinct_def)
next
  case False
  then show ?thesis by (simp add: addressesDistinct_def addressesDistinct_loop_first_occ)
qed

text \<open>
  Claim C7. For every address sequence \<open>s\<close>: applying \<open>addressesDistinct\<close> twice gives
  the same as applying it once; the result has no duplicate address; it has the addresses
  of \<open>s\<close>, and it lists exactly the first occurrences in \<open>s\<close> (the positions \<open>i\<close> whose
  address does not occur before \<open>i\<close>), in the order of \<open>s\<close>; and a sequence of length at
  most 1 is returned unchanged.
\<close>

theorem addressesDistinct_law:
  "addressesDistinct (addressesDistinct s) = addressesDistinct s
   \<and> distinct (addressesDistinct s)
   \<and> set (addressesDistinct s) = set s
   \<and> addressesDistinct s = map ((!) s) (filter (\<lambda>i. s ! i \<notin> set (take i s)) [0..<length s])
   \<and> (length s \<le> 1 \<longrightarrow> addressesDistinct s = s)"
proof -
  have "addressesDistinct (addressesDistinct s) = addressesDistinct s"
    by (rule addressesDistinct_fixed) (rule addressesDistinct_distinct)
  moreover have "length s \<le> 1 \<longrightarrow> addressesDistinct s = s"
    by (simp add: addressesDistinct_def)
  ultimately show ?thesis
    using addressesDistinct_distinct [of s] addressesDistinct_set [of s]
      addressesDistinct_first_occ [of s] by blast
qed

theorem addressesDistinct_law_witness:
  "addressesDistinct [0xA, 0xB, 0xA, 0xC] = [0xA, 0xB, 0xC]
   \<and> addressesDistinct (addressesDistinct [0xA, 0xB, 0xA, 0xC]) = addressesDistinct [0xA, 0xB, 0xA, 0xC]
   \<and> length [0x7 :: Address] \<le> 1 \<and> addressesDistinct [0x7] = [0x7]"
  using addressesDistinct_law [of "[0xA, 0xB, 0xA, 0xC]"] addressesDistinct_law [of "[0x7]"]
  by (simp add: addressesDistinct_def)

text \<open>
  Claim C8. For every address sequence \<open>s\<close> and address \<open>x\<close>: \<open>x\<close> does not exist in
  \<open>addressesRemove s x\<close>; the result is \<open>s\<close> without the occurrences of \<open>x\<close>, the other
  elements in their order; and when \<open>x\<close> does not exist in \<open>s\<close> the result equals \<open>s\<close>.
\<close>

theorem addressesRemove_law:
  "addressesExist (addressesRemove s x) x = False
   \<and> addressesRemove s x = filter (\<lambda>y. y \<noteq> x) s
   \<and> (\<not> addressesExist s x \<longrightarrow> addressesRemove s x = s)"
  by (auto simp: addressesExist_iff addressesRemove_def addressesRemove_loop_filter filter_id_conv)

theorem addressesRemove_law_witness:
  "\<not> addressesExist [0xA, 0xB, 0xC] 0xD \<and> addressesRemove [0xA, 0xB, 0xC] 0xD = [0xA, 0xB, 0xC]
   \<and> addressesRemove [0xA, 0xB, 0xC] 0xB = [0xA, 0xC]"
  using addressesRemove_law [of "[0xA, 0xB, 0xC]" "0xD"] addressesRemove_law [of "[0xA, 0xB, 0xC]" "0xB"]
  by (simp add: addressesRemove_def)

section \<open>Properties of the equality\<close>

lemma range_loop_nth:
  "range_loop differs xs idx other \<longleftrightarrow> (\<forall>i<length xs. \<not> differs (xs ! i) (other ! (idx + i)))"
proof (induction xs arbitrary: idx)
  case Nil
  then show ?case by simp
next
  case (Cons x xs)
  show ?case
    by (simp add: Cons.IH All_less_Suc2)
qed

lemma addresses_range_loop:
  "length xs = length ys \<Longrightarrow> range_loop (\<noteq>) xs 0 ys \<longleftrightarrow> xs = ys"
  by (simp add: range_loop_nth list_eq_iff_nth_eq)

lemma configs_range_loop:
  "length xs = length ys \<Longrightarrow>
   range_loop (\<lambda>config c. \<not> config_Equal config c) xs 0 ys \<longleftrightarrow> list_all2 config_Equal xs ys"
  by (simp add: range_loop_nth list_all2_conv_all_nth)

lemma Equal_iff:
  "Equal config_Equal a b \<longleftrightarrow>
     Root a = Root b \<and> Epoch a = Epoch b \<and> EpochBlock a = EpochBlock b
     \<and> list_all2 config_Equal (ChainConfig a) (ChainConfig b)
     \<and> CurrentBlockCandidates a = CurrentBlockCandidates b
     \<and> CurrentBlockKickOutCandidates a = CurrentBlockKickOutCandidates b
     \<and> CurrentBlockCancelCandidates a = CurrentBlockCancelCandidates b
     \<and> CurrentEpochValidators a = CurrentEpochValidators b"
proof -
  have cfg: "length (ChainConfig a) = length (ChainConfig b) \<and>
        range_loop (\<lambda>config c. \<not> config_Equal config c) (ChainConfig a) 0 (ChainConfig b)
        \<longleftrightarrow> list_all2 config_Equal (ChainConfig a) (ChainConfig b)"
    using configs_range_loop [of "ChainConfig a" "ChainConfig b" config_Equal]
    by (auto dest: list_all2_lengthD)
  have addr: "length xs = length ys \<and> range_loop (\<noteq>) xs 0 ys \<longleftrightarrow> xs = ys"
    for xs ys :: "Address list"
    using addresses_range_loop [of xs ys] by auto
  show ?thesis
    unfolding Equal_def using cfg addr by (simp only: if_bool_eq_conj) blast
qed

text \<open>
  Claim C3. \<open>Equal\<close> is sensitive to order. Two payloads whose \<open>CurrentBlockCandidates\<close>
  hold the same addresses the same number of times, in different orders, are not equal,
  whatever their other fields. Whenever \<open>Equal\<close> holds, each of the four address lists
  has the same length in both payloads and the same address at every index; and a
  difference in any of the other three lists alone makes \<open>Equal\<close> false.
\<close>

theorem Equal_order_sensitive:
  "(mset (CurrentBlockCandidates a) = mset (CurrentBlockCandidates b)
      \<and> CurrentBlockCandidates a \<noteq> CurrentBlockCandidates b
    \<longrightarrow> Equal config_Equal a b = False)
   \<and> (Equal config_Equal a b \<longrightarrow>
        length (CurrentBlockCandidates a) = length (CurrentBlockCandidates b)
        \<and> (\<forall>idx < length (CurrentBlockCandidates a).
              CurrentBlockCandidates a ! idx = CurrentBlockCandidates b ! idx)
        \<and> length (CurrentBlockKickOutCandidates a) = length (CurrentBlockKickOutCandidates b)
        \<and> (\<forall>idx < length (CurrentBlockKickOutCandidates a).
              CurrentBlockKickOutCandidates a ! idx = CurrentBlockKickOutCandidates b ! idx)
        \<and> length (CurrentBlockCancelCandidates a) = length (CurrentBlockCancelCandidates b)
        \<and> (\<forall>idx < length (CurrentBlockCancelCandidates a).
              CurrentBlockCancelCandidates a ! idx = CurrentBlockCancelCandidates b ! idx)
        \<and> length (CurrentEpochValidators a) = length (CurrentEpochValidators b)
        \<and> (\<forall>idx < length (CurrentEpochValidators a).
              CurrentEpochValidators a ! idx = CurrentEpochValidators b ! idx))
   \<and> (CurrentBlockKickOutCandidates a \<noteq> CurrentBlockKickOutCandidates b
        \<or> CurrentBlockCancelCandidates a \<noteq> CurrentBlockCancelCandidates b
        \<or> CurrentEpochValidators a \<noteq> CurrentEpochValidators b
      \<longrightarrow> Equal config_Equal a b = False)"
  by (auto simp: Equal_iff)

theorem Equal_order_sensitive_witness:
  "mset [0xA, 0xB :: Address] = mset [0xB, 0xA] \<and> [0xA, 0xB :: Address] \<noteq> [0xB, 0xA]
   \<and> Equal (=) ((zero_HeaderExtra :: nat HeaderExtra)\<lparr>CurrentBlockCandidates := [0xA, 0xB]\<rparr>)
         (zero_HeaderExtra\<lparr>CurrentBlockCandidates := [0xB, 0xA]\<rparr>) = False
   \<and> Equal (=) ((zero_HeaderExtra :: nat HeaderExtra)\<lparr>CurrentBlockCandidates := [0xA, 0xB]\<rparr>)
         (zero_HeaderExtra\<lparr>CurrentBlockCandidates := [0xA, 0xB]\<rparr>)
   \<and> Equal (=) ((zero_HeaderExtra :: nat HeaderExtra)\<lparr>CurrentEpochValidators := [0xA, 0xB]\<rparr>)
         (zero_HeaderExtra\<lparr>CurrentEpochValidators := [0xB, 0xA]\<rparr>) = False"
  using Equal_order_sensitive
    [of "(zero_HeaderExtra :: nat HeaderExtra)\<lparr>CurrentBlockCandidates := [0xA, 0xB]\<rparr>"
        "zero_HeaderExtra\<lparr>CurrentBlockCandidates := [0xB, 0xA]\<rparr>" "(=)"]
    Equal_order_sensitive
    [of "(zero_HeaderExtra :: nat HeaderExtra)\<lparr>CurrentBlockCandidates := [0xA, 0xB]\<rparr>"
        "zero_HeaderExtra\<lparr>CurrentBlockCandidates := [0xA, 0xB]\<rparr>" "(=)"]
    Equal_order_sensitive
    [of "(zero_HeaderExtra :: nat HeaderExtra)\<lparr>CurrentEpochValidators := [0xA, 0xB]\<rparr>"
        "zero_HeaderExtra\<lparr>CurrentEpochValidators := [0xB, 0xA]\<rparr>" "(=)"]
  by (simp add: Equal_def zero_HeaderExtra_def)

text \<open>
  Claim C6. \<open>Equal\<close> is reflexive and symmetric. The comparison of \<open>ChainConfig\<close>
  elements is the parameter \<open>config_Equal\<close>: a payload equals itself when each of its
  configs equals itself, and \<open>Equal a b = Equal b a\<close> when \<open>config_Equal\<close> gives the
  same answer in both directions on the configs of \<open>a\<close> and \<open>b\<close>.
\<close>

theorem Equal_reflexive_symmetric:
  "((\<forall>c \<in> set (ChainConfig p). config_Equal c c) \<longrightarrow> Equal config_Equal p p = True)
   \<and> ((\<forall>x \<in> set (ChainConfig a). \<forall>y \<in> set (ChainConfig b). config_Equal x y = config_Equal y x)
        \<longrightarrow> Equal config_Equal a b = Equal config_Equal b a)"
proof -
  have refl: "list_all2 config_Equal xs xs" if "\<forall>c \<in> set xs. config_Equal c c" for xs
    using that by (simp add: list_all2_same)
  have sym: "list_all2 config_Equal xs ys = list_all2 config_Equal ys xs"
    if "\<forall>x \<in> set xs. \<forall>y \<in> set ys. config_Equal x y = config_Equal y x" for xs ys
  proof -
    have "config_Equal (xs ! i) (ys ! i) = config_Equal (ys ! i) (xs ! i)"
      if "i < length xs" "i < length ys" for i
      using that \<open>\<forall>x \<in> set xs. \<forall>y \<in> set ys. config_Equal x y = config_Equal y x\<close>
      by (meson nth_mem)
    then show ?thesis
      by (auto simp: list_all2_conv_all_nth)
  qed
  show ?thesis
    using refl [of "ChainConfig p"] sym [of "ChainConfig a" "ChainConfig b"]
    unfolding Equal_iff by auto
qed

theorem Equal_reflexive_symmetric_witness:
  "Equal (=) ((zero_HeaderExtra :: nat HeaderExtra)\<lparr>ChainConfig := [1, 2]\<rparr>)
         (zero_HeaderExtra\<lparr>ChainConfig := [1, 2]\<rparr>) = True
   \<and> Equal (=) ((zero_HeaderExtra :: nat HeaderExtra)\<lparr>ChainConfig := [1, 2]\<rparr>)
         (zero_HeaderExtra\<lparr>ChainConfig := [1, 3]\<rparr>)
       = Equal (=) ((zero_HeaderExtra :: nat HeaderExtra)\<lparr>ChainConfig := [1, 3]\<rparr>)
           (zero_HeaderExtra\<lparr>ChainConfig := [1, 2]\<rparr>)"
proof -
  let ?p = "(zero_HeaderExtra :: nat HeaderExtra)\<lparr>ChainConfig := [1, 2]\<rparr>"
  let ?q = "(zero_HeaderExtra :: nat HeaderExtra)\<lparr>ChainConfig := [1, 3]\<rparr>"
  have refl: "\<forall>c \<in> set (ChainConfig ?p). c = c"
    by simp
  have sym: "\<forall>x \<in> set (ChainConfig ?p). \<forall>y \<in> set (ChainConfig ?q). (x = y) = (y = x)"
    by auto
  show ?thesis
    using Equal_reflexive_symmetric [of ?p "(=)" ?p ?q] refl sym by blast
qed

section \<open>Properties of the extraction and the envelope codec\<close>

lemma read_loop_drains:
  "read_loop r buffer =
     (buffer @ reader_bytes r, if reader_error r = io_EOF then None else Some (reader_error r))"
  by (induction r arbitrary: buffer) (auto simp: Let_def)

lemma NewHeaderExtra_cases:
  "NewHeaderExtra gzip_NewReader rlp_DecodeBytes data =
     (case gzip_NewReader data of
        Inl err \<Rightarrow> (zero_HeaderExtra, Some err)
      | Inr r \<Rightarrow>
          if reader_error r \<noteq> io_EOF then (zero_HeaderExtra, Some (reader_error r))
          else (case rlp_DecodeBytes (reader_bytes r) zero_HeaderExtra of
                  (headerExtra, Some err) \<Rightarrow> (zero_HeaderExtra, Some err)
                | (headerExtra, None) \<Rightarrow> (headerExtra, None)))"
  by (simp add: NewHeaderExtra_def read_loop_drains split: sum.splits)

lemma go_slice_nth: "lo \<le> hi \<Longrightarrow> hi \<le> length s \<Longrightarrow> go_slice s lo hi = map ((!) s) [lo..<hi]"
  unfolding go_slice_def
  by (auto simp: list_eq_iff_nth_eq)

lemma example_stream:
  "example_NewReader (example_Write data)
     = Inr (Deliver data (Fail [] io_EOF))"
  by (simp add: example_NewReader_def example_member_def example_Write_def)

text \<open>
  Claim C2. The boundary law of \<open>DecodeHeaderExtra\<close>, for every extra-data \<open>b\<close>: shorter
  than \<open>extraVanity\<close>, it fails with \<open>errMissingVanity\<close>; at least \<open>extraVanity\<close> and
  shorter than \<open>extraVanity + extraSeal\<close>, it fails with \<open>errMissingSignature\<close>;
  otherwise its result is that of \<open>NewHeaderExtra\<close> on the bytes of \<open>b\<close> at the positions
  from \<open>extraVanity\<close> up to, not including, \<open>length b - extraSeal\<close> (no byte when the
  two are equal), so the extraction itself fails in no other way.
\<close>

theorem DecodeHeaderExtra_boundary:
  "(length b < extraVanity \<longrightarrow>
      DecodeHeaderExtra extraVanity extraSeal gzip_NewReader rlp_DecodeBytes b
        = (zero_HeaderExtra, Some errMissingVanity))
   \<and> (extraVanity \<le> length b \<and> length b < extraVanity + extraSeal \<longrightarrow>
      DecodeHeaderExtra extraVanity extraSeal gzip_NewReader rlp_DecodeBytes b
        = (zero_HeaderExtra, Some errMissingSignature))
   \<and> (extraVanity + extraSeal \<le> length b \<longrightarrow>
      DecodeHeaderExtra extraVanity extraSeal gzip_NewReader rlp_DecodeBytes b
        = NewHeaderExtra gzip_NewReader rlp_DecodeBytes (map ((!) b) [extraVanity ..< length b - extraSeal]))"
proof -
  have "go_slice b extraVanity (length b - extraSeal) = map ((!) b) [extraVanity ..< length b - extraSeal]"
    if "extraVanity + extraSeal \<le> length b"
    using that by (intro go_slice_nth) auto
  then show ?thesis
    by (auto simp: DecodeHeaderExtra_def)
qed

theorem DecodeHeaderExtra_boundary_witness:
  "length (replicate 31 (0 :: byte)) < 32
   \<and> DecodeHeaderExtra 32 65 example_NewReader example_DecodeBytes (replicate 31 0)
       = (zero_HeaderExtra, Some errMissingVanity)
   \<and> 32 \<le> length (replicate 96 (0 :: byte)) \<and> length (replicate 96 (0 :: byte)) < 32 + 65
   \<and> DecodeHeaderExtra 32 65 example_NewReader example_DecodeBytes (replicate 96 0)
       = (zero_HeaderExtra, Some errMissingSignature)
   \<and> 32 + 65 \<le> length (replicate 32 0 @ example_Write [7] @ replicate 65 0)
   \<and> DecodeHeaderExtra 32 65 example_NewReader example_DecodeBytes
         (replicate 32 0 @ example_Write [7] @ replicate 65 0)
       = (zero_HeaderExtra\<lparr>Epoch := 7\<rparr>, None)"
proof -
  let ?b = "replicate 32 (0 :: byte) @ example_Write [7] @ replicate 65 0"
  have len: "32 + 65 \<le> length ?b"
    by (simp add: example_Write_def)
  have "map ((!) ?b) [32 ..< length ?b - 65] = go_slice ?b 32 (length ?b - 65)"
    by (rule go_slice_nth [symmetric]) (simp_all add: example_Write_def)
  also have "\<dots> = example_Write [7]"
    by (simp add: go_slice_def)
  finally have middle: "map ((!) ?b) [32 ..< length ?b - 65] = example_Write [7]" .
  have "DecodeHeaderExtra 32 65 example_NewReader example_DecodeBytes ?b
          = NewHeaderExtra example_NewReader example_DecodeBytes (map ((!) ?b) [32 ..< length ?b - 65])"
    using DecodeHeaderExtra_boundary [of ?b 32 65 example_NewReader example_DecodeBytes] len
    by blast
  also have "\<dots> = (zero_HeaderExtra\<lparr>Epoch := 7\<rparr>, None)"
    unfolding middle by (simp add: NewHeaderExtra_def example_stream)
  finally have third: "DecodeHeaderExtra 32 65 example_NewReader example_DecodeBytes ?b
          = (zero_HeaderExtra\<lparr>Epoch := 7\<rparr>, None)" .
  show ?thesis
    using DecodeHeaderExtra_boundary [of "replicate 31 0" 32 65 example_NewReader example_DecodeBytes]
      DecodeHeaderExtra_boundary [of "replicate 96 0" 32 65 example_NewReader example_DecodeBytes]
      len third
    by simp
qed

text \<open>
  Claim C5. The errors of \<open>NewHeaderExtra\<close>, for every input: when the stream does not
  open, the result is the error of opening it; when it opens and its reads end with an
  error other than \<open>io.EOF\<close>, the result is that error; when the reads end cleanly and
  the deserializer rejects the bytes read, the result is the deserializer's error; when
  the reads end cleanly and the deserializer accepts them, the result is its payload
  with no error. A result with no error arises only in this last way.
\<close>

theorem NewHeaderExtra_error_taxonomy:
  "(\<forall>err. gzip_NewReader data = Inl err \<longrightarrow>
       NewHeaderExtra gzip_NewReader rlp_DecodeBytes data = (zero_HeaderExtra, Some err))
   \<and> (\<forall>r. gzip_NewReader data = Inr r \<and> reader_error r \<noteq> io_EOF \<longrightarrow>
       NewHeaderExtra gzip_NewReader rlp_DecodeBytes data = (zero_HeaderExtra, Some (reader_error r)))
   \<and> (\<forall>r headerExtra err.
         gzip_NewReader data = Inr r \<and> reader_error r = io_EOF
         \<and> rlp_DecodeBytes (reader_bytes r) zero_HeaderExtra = (headerExtra, Some err) \<longrightarrow>
       NewHeaderExtra gzip_NewReader rlp_DecodeBytes data = (zero_HeaderExtra, Some err))
   \<and> (\<forall>r headerExtra.
         gzip_NewReader data = Inr r \<and> reader_error r = io_EOF
         \<and> rlp_DecodeBytes (reader_bytes r) zero_HeaderExtra = (headerExtra, None) \<longrightarrow>
       NewHeaderExtra gzip_NewReader rlp_DecodeBytes data = (headerExtra, None))
   \<and> (snd (NewHeaderExtra gzip_NewReader rlp_DecodeBytes data) = None \<longrightarrow>
        (\<exists>r. gzip_NewReader data = Inr r \<and> reader_error r = io_EOF
           \<and> snd (rlp_DecodeBytes (reader_bytes r) zero_HeaderExtra) = None))"
  by (auto simp: NewHeaderExtra_cases split: sum.splits prod.splits option.splits)

theorem NewHeaderExtra_error_taxonomy_witness:
  "example_NewReader [0x50, 0x4b, 0x03, 0x04, 0, 0, 0, 0, 0, 0] = Inl gzip_ErrHeader
   \<and> NewHeaderExtra example_NewReader example_DecodeBytes [0x50, 0x4b, 0x03, 0x04, 0, 0, 0, 0, 0, 0]
       = (zero_HeaderExtra, Some gzip_ErrHeader)
   \<and> example_NewReader [0x1f, 0x8b, 0x08, 0, 0, 0, 0, 0, 0, 0xff, 7]
       = Inr (Fail [7] io_ErrUnexpectedEOF)
   \<and> NewHeaderExtra example_NewReader example_DecodeBytes [0x1f, 0x8b, 0x08, 0, 0, 0, 0, 0, 0, 0xff, 7]
       = (zero_HeaderExtra, Some io_ErrUnexpectedEOF)
   \<and> example_NewReader (example_Write []) = Inr (Deliver [] (Fail [] io_EOF))
   \<and> example_DecodeBytes [] zero_HeaderExtra = (zero_HeaderExtra, Some io_EOF)
   \<and> NewHeaderExtra example_NewReader example_DecodeBytes (example_Write [])
       = (zero_HeaderExtra, Some io_EOF)
   \<and> example_NewReader (example_Write [7]) = Inr (Deliver [7] (Fail [] io_EOF))
   \<and> example_DecodeBytes [7] zero_HeaderExtra = (zero_HeaderExtra\<lparr>Epoch := 7\<rparr>, None)
   \<and> NewHeaderExtra example_NewReader example_DecodeBytes (example_Write [7])
       = (zero_HeaderExtra\<lparr>Epoch := 7\<rparr>, None)"
proof -
  let ?zip = "[0x50, 0x4b, 0x03, 0x04, 0, 0, 0, 0, 0, 0] :: byte list"
  let ?cut = "[0x1f, 0x8b, 0x08, 0, 0, 0, 0, 0, 0, 0xff, 7] :: byte list"
  have open1: "example_NewReader ?zip = Inl gzip_ErrHeader"
    by (simp add: example_NewReader_def)
  have open2: "example_NewReader ?cut = Inr (Fail [7] io_ErrUnexpectedEOF)"
    by (simp add: example_NewReader_def example_member_def)
  have r1: "NewHeaderExtra example_NewReader example_DecodeBytes ?zip
              = (zero_HeaderExtra, Some gzip_ErrHeader)"
    using NewHeaderExtra_error_taxonomy [of example_NewReader ?zip example_DecodeBytes] open1
    by blast
  have r2: "NewHeaderExtra example_NewReader example_DecodeBytes ?cut
              = (zero_HeaderExtra, Some io_ErrUnexpectedEOF)"
    using NewHeaderExtra_error_taxonomy [of example_NewReader ?cut example_DecodeBytes] open2
    by auto
  have r3: "NewHeaderExtra example_NewReader example_DecodeBytes (example_Write [])
              = (zero_HeaderExtra, Some io_EOF)"
    using NewHeaderExtra_error_taxonomy [of example_NewReader "example_Write []" example_DecodeBytes]
      example_stream [of "[]"]
    by auto
  have r4: "NewHeaderExtra example_NewReader example_DecodeBytes (example_Write [7])
              = (zero_HeaderExtra\<lparr>Epoch := 7\<rparr>, None)"
    using NewHeaderExtra_error_taxonomy [of example_NewReader "example_Write [7]" example_DecodeBytes]
      example_stream [of "[7]"]
    by auto
  show ?thesis
    using open1 open2 r1 r2 r3 r4 example_stream [of "[]"] example_stream [of "[7]"]
    by simp
qed

text \<open>
  Claim C10. Whenever \<open>NewHeaderExtra\<close> or \<open>DecodeHeaderExtra\<close> returns an error, the
  payload returned with it is the zero value of \<open>HeaderExtra\<close>: every hash zero, both
  counters zero, every list empty. What the deserializer had filled in before it failed
  is not returned.
\<close>

theorem decode_failure_zero_value:
  "(snd (NewHeaderExtra gzip_NewReader rlp_DecodeBytes data) \<noteq> None \<longrightarrow>
      fst (NewHeaderExtra gzip_NewReader rlp_DecodeBytes data) = zero_HeaderExtra)
   \<and> (snd (DecodeHeaderExtra extraVanity extraSeal gzip_NewReader rlp_DecodeBytes b) \<noteq> None \<longrightarrow>
      fst (DecodeHeaderExtra extraVanity extraSeal gzip_NewReader rlp_DecodeBytes b) = zero_HeaderExtra)
   \<and> (zero_HeaderExtra :: 'cfg HeaderExtra) =
       \<lparr>Root = \<lparr>EpochHash = 0, CandidateHash = 0, MintCntHash = 0, ConfigHash = 0\<rparr>,
        Epoch = 0, EpochBlock = 0,
        CurrentBlockCandidates = [], CurrentBlockKickOutCandidates = [],
        CurrentBlockCancelCandidates = [], CurrentEpochValidators = [],
        ChainConfig = []\<rparr>"
proof -
  have new: "fst (NewHeaderExtra gzip_NewReader rlp_DecodeBytes d) = zero_HeaderExtra"
    if "snd (NewHeaderExtra gzip_NewReader rlp_DecodeBytes d) \<noteq> None" for d
    using that
    by (auto simp: NewHeaderExtra_cases split: sum.splits if_splits prod.splits option.splits)
  show ?thesis
    using new by (auto simp: DecodeHeaderExtra_def zero_HeaderExtra_def zero_Root_def)
qed

theorem decode_failure_zero_value_witness:
  "example_DecodeBytes [7, 9] zero_HeaderExtra
     = (zero_HeaderExtra\<lparr>Epoch := 7\<rparr>,
        Some (OtherError ''rlp: input contains more than one value''))
   \<and> snd (NewHeaderExtra example_NewReader example_DecodeBytes (example_Write [7, 9])) \<noteq> None
   \<and> fst (NewHeaderExtra example_NewReader example_DecodeBytes (example_Write [7, 9]))
       = zero_HeaderExtra
   \<and> snd (DecodeHeaderExtra 32 65 example_NewReader example_DecodeBytes (replicate 31 0)) \<noteq> None
   \<and> fst (DecodeHeaderExtra 32 65 example_NewReader example_DecodeBytes (replicate 31 0))
       = zero_HeaderExtra"
proof -
  have new: "NewHeaderExtra example_NewReader example_DecodeBytes (example_Write [7, 9])
          = (zero_HeaderExtra, Some (OtherError ''rlp: input contains more than one value''))"
    by (simp add: NewHeaderExtra_def example_stream)
  have dec: "DecodeHeaderExtra 32 65 example_NewReader example_DecodeBytes (replicate 31 0)
          = (zero_HeaderExtra, Some errMissingVanity)"
    by (simp add: DecodeHeaderExtra_def)
  show ?thesis
    using decode_failure_zero_value
      [of example_NewReader example_DecodeBytes "example_Write [7, 9]" 32 65 "replicate 31 0"]
    by (simp add: new dec)
qed

text \<open>
  Claim C9. An empty middle slice never decodes. Opening the empty byte sequence as a
  gzip stream fails, so \<open>NewHeaderExtra\<close> on it returns the zero payload with the error
  \<open>io.EOF\<close>; an extra-data of length exactly \<open>extraVanity + extraSeal\<close> has the empty
  middle slice, and \<open>DecodeHeaderExtra\<close> returns that same error for it.
\<close>

theorem empty_middle_never_decodes:
  "NewHeaderExtra (modelled_gzip_NewReader member) rlp_DecodeBytes []
     = (zero_HeaderExtra, Some io_EOF)
   \<and> (length b = extraVanity + extraSeal \<longrightarrow>
        go_slice b extraVanity (length b - extraSeal) = []
        \<and> DecodeHeaderExtra extraVanity extraSeal (modelled_gzip_NewReader member) rlp_DecodeBytes b
          = (zero_HeaderExtra, Some io_EOF))"
  by (simp add: DecodeHeaderExtra_def NewHeaderExtra_def modelled_gzip_NewReader_def go_slice_def)

theorem empty_middle_never_decodes_witness:
  "length (replicate 97 (0 :: byte)) = 32 + 65
   \<and> go_slice (replicate 97 (0 :: byte)) 32 (length (replicate 97 (0 :: byte)) - 65) = []
   \<and> DecodeHeaderExtra 32 65 (modelled_gzip_NewReader example_member) example_DecodeBytes
         (replicate 97 0)
       = (zero_HeaderExtra, Some io_EOF)"
  using empty_middle_never_decodes [of example_member example_DecodeBytes "replicate 97 0" 32 65]
  by simp

text \<open>
  Claim C1. The round-trip law. For every well-formed payload \<open>p\<close> whose serialization
  the compressor round-trips: \<open>Encode\<close> returns no error, \<open>NewHeaderExtra\<close> on the bytes
  it returns gives no error either, and the payload decoded is equal to \<open>p\<close> under
  \<open>Equal\<close>.
\<close>

theorem encode_decode_round_trip:
  assumes wf: "well_formed rlp_EncodeToBytes rlp_DecodeBytes config_Equal p"
    and gz: "gzip_round_trip gzip_Write gzip_NewReader (fst (rlp_EncodeToBytes p))"
  shows "snd (Encode rlp_EncodeToBytes gzip_Write p) = None
     \<and> snd (NewHeaderExtra gzip_NewReader rlp_DecodeBytes (fst (Encode rlp_EncodeToBytes gzip_Write p))) = None
     \<and> Equal config_Equal
         (fst (NewHeaderExtra gzip_NewReader rlp_DecodeBytes (fst (Encode rlp_EncodeToBytes gzip_Write p)))) p"
proof -
  obtain data where enc_ok: "rlp_EncodeToBytes p = (data, None)"
    using wf by (auto simp: well_formed_def split: prod.splits option.splits)
  obtain q where dec_ok: "rlp_DecodeBytes data zero_HeaderExtra = (q, None)"
    and eq: "Equal config_Equal q p"
    using wf enc_ok by (auto simp: well_formed_def split: prod.splits option.splits)
  obtain r where opened: "gzip_NewReader (gzip_Write data) = Inr r"
    and bytes: "reader_bytes r = data" and clean: "reader_error r = io_EOF"
    using gz enc_ok by (auto simp: gzip_round_trip_def split: sum.splits)
  have enc: "Encode rlp_EncodeToBytes gzip_Write p = (gzip_Write data, None)"
    using enc_ok by (simp add: Encode_def)
  have dec: "NewHeaderExtra gzip_NewReader rlp_DecodeBytes (gzip_Write data) = (q, None)"
    using opened bytes clean dec_ok by (simp add: NewHeaderExtra_cases)
  show ?thesis
    using eq by (simp add: enc dec)
qed

theorem encode_decode_round_trip_witness:
  "well_formed example_EncodeToBytes example_DecodeBytes (=) (zero_HeaderExtra\<lparr>Epoch := 7\<rparr>)
   \<and> gzip_round_trip example_Write example_NewReader
         (fst (example_EncodeToBytes (zero_HeaderExtra\<lparr>Epoch := 7\<rparr>)))
   \<and> Encode example_EncodeToBytes example_Write (zero_HeaderExtra\<lparr>Epoch := 7\<rparr>)
       = (example_Write [7], None)
   \<and> NewHeaderExtra example_NewReader example_DecodeBytes (example_Write [7])
       = (zero_HeaderExtra\<lparr>Epoch := 7\<rparr>, None)
   \<and> Equal (=)
        (fst (NewHeaderExtra example_NewReader example_DecodeBytes
            (fst (Encode example_EncodeToBytes example_Write (zero_HeaderExtra\<lparr>Epoch := 7\<rparr>)))))
        (zero_HeaderExtra\<lparr>Epoch := 7\<rparr>)"
proof -
  let ?p = "(zero_HeaderExtra :: nat HeaderExtra)\<lparr>Epoch := 7\<rparr>"
  have enc: "example_EncodeToBytes ?p = ([7], None)"
    by (simp add: example_EncodeToBytes_def)
  have eq: "Equal (=) ?p ?p"
    by (simp add: Equal_def zero_HeaderExtra_def)
  have wf: "well_formed example_EncodeToBytes example_DecodeBytes (=) ?p"
    by (simp add: well_formed_def enc eq)
  have gz: "gzip_round_trip example_Write example_NewReader (fst (example_EncodeToBytes ?p))"
    by (simp add: gzip_round_trip_def enc example_stream)
  have e: "Encode example_EncodeToBytes example_Write ?p = (example_Write [7], None)"
    by (simp add: Encode_def enc)
  have d: "NewHeaderExtra example_NewReader example_DecodeBytes (example_Write [7]) = (?p, None)"
    by (simp add: NewHeaderExtra_def example_stream)
  show ?thesis
    using encode_decode_round_trip [OF wf gz] wf gz e d by simp
qed

section \<open>Properties of the divergence report\<close>

lemma hex_digits_numeral:
  "hex_digits (numeral k) n = hex_digits (pred_numeral k) (n div 16) @ [digit_char (n mod 16)]"
proof -
  have "hex_digits (Suc (pred_numeral k)) n
          = hex_digits (pred_numeral k) (n div 16) @ [digit_char (n mod 16)]"
    by (rule hex_digits.simps)
  then show ?thesis
    by (simp only: numeral_eq_Suc [of k])
qed

text \<open>
  The text written for the scenario of claim C4 does not begin with the line
  \<open>BlockNumber: 42\<close>: the banner comes first.
\<close>

theorem PrintDifference_first_line_counterexample:
  "\<not> prefix ''BlockNumber: 42''
       (PrintDifference hex_Hash_String
          \<lparr>EpochHash = 0xE1, CandidateHash = 0xC1, MintCntHash = 0xA1, ConfigHash = 0xF1\<rparr> 42
          \<lparr>EpochHash = 0xE1, CandidateHash = 0xC2, MintCntHash = 0xA1, ConfigHash = 0xF2\<rparr>)"
  by (simp add: PrintDifference_def)

text \<open>
  Claim C4, as amended. For roots \<open>a = {E1, C1, M1, F1}\<close> and \<open>b = {E1, C2, M1, F2}\<close>
  with \<open>C1 \<noteq> C2\<close> and \<open>F1 \<noteq> F2\<close>, and block number 42, the lines joined are the line
  \<open>BlockNumber: 42\<close>, the line for \<open>CandidateHash\<close> and the line for \<open>ConfigHash\<close>, each
  of the form \<open><FieldName>: <a.value> ---- <b.value>\<close>, and none for \<open>EpochHash\<close> or
  \<open>MintCntHash\<close>. The text written begins with the banner line
  \<open>######### Root Hash Difference #########\<close>; the line \<open>BlockNumber: 42\<close> is its
  second line, the two field lines follow, and each line ends with a newline.
\<close>

theorem PrintDifference_scenario:
  assumes "C1 \<noteq> C2" and "F1 \<noteq> F2"
  shows "PrintDifference_lines Hash_String
           \<lparr>EpochHash = E1, CandidateHash = C1, MintCntHash = M1, ConfigHash = F1\<rparr> 42
           \<lparr>EpochHash = E1, CandidateHash = C2, MintCntHash = M1, ConfigHash = F2\<rparr>
         = [''BlockNumber: 42'',
            ''CandidateHash: '' @ Hash_String C1 @ '' ---- '' @ Hash_String C2,
            ''ConfigHash: '' @ Hash_String F1 @ '' ---- '' @ Hash_String F2]
       \<and> PrintDifference Hash_String
           \<lparr>EpochHash = E1, CandidateHash = C1, MintCntHash = M1, ConfigHash = F1\<rparr> 42
           \<lparr>EpochHash = E1, CandidateHash = C2, MintCntHash = M1, ConfigHash = F2\<rparr>
         = ''######### Root Hash Difference #########'' @ newline
           @ ''BlockNumber: 42'' @ newline
           @ ''CandidateHash: '' @ Hash_String C1 @ '' ---- '' @ Hash_String C2 @ newline
           @ ''ConfigHash: '' @ Hash_String F1 @ '' ---- '' @ Hash_String F2 @ newline"
  using assms
  by (simp add: PrintDifference_def PrintDifference_lines_def decimal.simps digit_char_def)

theorem PrintDifference_scenario_witness:
  "(0xC1 :: Hash) \<noteq> 0xC2 \<and> (0xF1 :: Hash) \<noteq> 0xF2
   \<and> PrintDifference hex_Hash_String
         \<lparr>EpochHash = 0xE1, CandidateHash = 0xC1, MintCntHash = 0xA1, ConfigHash = 0xF1\<rparr> 42
         \<lparr>EpochHash = 0xE1, CandidateHash = 0xC2, MintCntHash = 0xA1, ConfigHash = 0xF2\<rparr>
       = ''######### Root Hash Difference #########'' @ newline
         @ ''BlockNumber: 42'' @ newline
         @ ''CandidateHash: 0x00000000000000000000000000000000000000000000000000000000000000c1''
         @ '' ---- 0x00000000000000000000000000000000000000000000000000000000000000c2'' @ newline
         @ ''ConfigHash: 0x00000000000000000000000000000000000000000000000000000000000000f1''
         @ '' ---- 0x00000000000000000000000000000000000000000000000000000000000000f2'' @ newline"
proof -
  have ne: "(0xC1 :: Hash) \<noteq> 0xC2" "(0xF1 :: Hash) \<noteq> 0xF2"
    by simp_all
  have hs: "hex_Hash_String 0xC1 = ''0x00000000000000000000000000000000000000000000000000000000000000c1''"
    "hex_Hash_String 0xC2 = ''0x00000000000000000000000000000000000000000000000000000000000000c2''"
    "hex_Hash_String 0xF1 = ''0x00000000000000000000000000000000000000000000000000000000000000f1''"
    "hex_Hash_String 0xF2 = ''0x00000000000000000000000000000000000000000000000000000000000000f2''"
    by (simp_all add: hex_Hash_String_def hex_digits_numeral digit_char_def)
  show ?thesis
    using ne PrintDifference_scenario [OF ne, of hex_Hash_String "0xE1" "0xA1"]
    by (simp add: hs)
qed

end
